theory Spec2Isabelle
  imports Main "HOL-Library.Word" "HOL-Library.Multiset" "HOL-Library.Product_Lexorder"
begin

chapter \<open>The league simulation\<close>

section \<open>Data model (main.go)\<close>

text \<open>
  Go's \<open>int\<close> on the 64-bit targets of the Dockerfile is a 64-bit two's-complement
  integer: \<open>+\<close>, \<open>-\<close> and \<open>*\<close> wrap, \<open>>\<close> and \<open><\<close> compare the signed values
  (\<open>a > b\<close> is \<open>b <s a\<close>).

  A \<open>*Team\<close> is an address into a heap of \<open>Team\<close> objects. Many matches share one
  team object, so every write of the source goes through the heap and is seen by every
  other holder of the pointer. \<open>league.Teams\<close> is a list of such addresses: in the console
  league they are the addresses that the fixtures hold, in the server's league
  (\<open>initializeLeague\<close>) they are the objects of \<open>GetTeams\<close>, while the fixtures hold the
  objects that \<open>GetMatches\<close> made. Each \<open>*Match\<close> and each \<open>*LeagueTableEntry\<close> is
  created once and held by exactly one slice, so these slices are lists of values.
\<close>

type_synonym goint = "64 word"
type_synonym team_ptr = nat

record Team =
  TeamName :: string
  TeamId :: goint
  TeamStrength :: goint
  GoalsFor :: goint
  GoalsAgainst :: goint
  Wins :: goint
  Draws :: goint
  Losses :: goint
  Points :: goint
  GoalsDifference :: goint

record Match =
  MatchId :: goint
  Week :: goint
  HomeTeam :: team_ptr
  AwayTeam :: team_ptr
  HomeTeamScore :: goint
  AwayTeamScore :: goint
  Played :: bool

text \<open>The fields of \<open>LeagueTableEntry\<close> carry the suffix \<open>_e\<close>: the source reuses the
  field names of \<open>Team\<close> and \<open>Match\<close>.\<close>

record LeagueTableEntry =
  TeamName_e :: string
  Played_e :: goint
  Wins_e :: goint
  Draws_e :: goint
  Losses_e :: goint
  GoalsFor_e :: goint
  GoalsAgainst_e :: goint
  GoalsDifference_e :: goint
  Points_e :: goint
  Position_e :: goint

type_synonym team_heap = "team_ptr \<Rightarrow> Team"

record League =
  Heap :: team_heap
  Teams :: "team_ptr list"
  Matches :: "Match list"
  CurrentWeek :: goint
  LeagueTable :: "LeagueTableEntry list"

text \<open>\<open>p.field op= v\<close> for a \<open>p :: *Team\<close>.\<close>

definition upd_team :: "team_ptr \<Rightarrow> (Team \<Rightarrow> Team) \<Rightarrow> team_heap \<Rightarrow> team_heap" where
  "upd_team p f H = H(p := f (H p))"

section \<open>Teams and fixtures\<close>

definition new_team :: "string \<Rightarrow> goint \<Rightarrow> goint \<Rightarrow> Team" where
  "new_team name tid strength =
     \<lparr>TeamName = name, TeamId = tid, TeamStrength = strength, GoalsFor = 0, GoalsAgainst = 0,
      Wins = 0, Draws = 0, Losses = 0, Points = 0, GoalsDifference = 0\<rparr>"

definition createPremierLeagueTeams :: "Team list" where
  "createPremierLeagueTeams =
     [new_team ''Manchester United'' 1 80,
      new_team ''Liverpool'' 2 85,
      new_team ''Manchester City'' 3 90,
      new_team ''Chelsea'' 4 88]"

datatype go_panic = IndexOutOfRange

definition index :: "'a list \<Rightarrow> nat \<Rightarrow> go_panic + 'a" where
  "index xs i = (if i < length xs then Inr (xs ! i) else Inl IndexOutOfRange)"

definition weekFixtures :: "(nat \<times> nat) list list" where
  "weekFixtures = [[(0, 1), (2, 3)], [(0, 2), (1, 3)], [(0, 3), (1, 2)]]"

definition new_match :: "goint \<Rightarrow> goint \<Rightarrow> team_ptr \<Rightarrow> team_ptr \<Rightarrow> Match" where
  "new_match matchId week home away =
     \<lparr>MatchId = matchId, Week = week, HomeTeam = home, AwayTeam = away,
      HomeTeamScore = 0, AwayTeamScore = 0, Played = False\<rparr>"

text \<open>The inner loop of the first leg: one week's fixtures, threading \<open>matches\<close> and
  \<open>matchId\<close>.\<close>

fun first_leg_week ::
  "team_ptr list \<Rightarrow> goint \<Rightarrow> (nat \<times> nat) list \<Rightarrow> Match list \<times> goint \<Rightarrow> go_panic + (Match list \<times> goint)"
where
  "first_leg_week teams week [] acc = Inr acc"
| "first_leg_week teams week (fixture # rest) (matches, matchId) =
     (case index teams (fst fixture) of
        Inl e \<Rightarrow> Inl e
      | Inr home \<Rightarrow>
          (case index teams (snd fixture) of
             Inl e \<Rightarrow> Inl e
           | Inr away \<Rightarrow>
               first_leg_week teams week rest
                 (matches @ [new_match matchId week home away], matchId + 1)))"

text \<open>The inner loop of the second leg: home and away reversed.\<close>

fun second_leg_week ::
  "team_ptr list \<Rightarrow> goint \<Rightarrow> (nat \<times> nat) list \<Rightarrow> Match list \<times> goint \<Rightarrow> go_panic + (Match list \<times> goint)"
where
  "second_leg_week teams week [] acc = Inr acc"
| "second_leg_week teams week (fixture # rest) (matches, matchId) =
     (case index teams (snd fixture) of
        Inl e \<Rightarrow> Inl e
      | Inr home \<Rightarrow>
          (case index teams (fst fixture) of
             Inl e \<Rightarrow> Inl e
           | Inr away \<Rightarrow>
               second_leg_week teams week rest
                 (matches @ [new_match matchId week home away], matchId + 1)))"

text \<open>The outer loop of a leg, over the weeks, threading \<open>matches\<close>, \<open>matchId\<close> and
  \<open>week\<close>.\<close>

fun leg_loop ::
  "(goint \<Rightarrow> (nat \<times> nat) list \<Rightarrow> Match list \<times> goint \<Rightarrow> go_panic + (Match list \<times> goint)) \<Rightarrow>
   (nat \<times> nat) list list \<Rightarrow> Match list \<times> goint \<times> goint \<Rightarrow> go_panic + (Match list \<times> goint \<times> goint)"
where
  "leg_loop body [] acc = Inr acc"
| "leg_loop body (fixtures # rest) (matches, matchId, week) =
     (case body week fixtures (matches, matchId) of
        Inl e \<Rightarrow> Inl e
      | Inr (matches', matchId') \<Rightarrow> leg_loop body rest (matches', matchId', week + 1))"

definition createPremierLeagueMatches :: "team_ptr list \<Rightarrow> go_panic + Match list" where
  "createPremierLeagueMatches teams =
     (case leg_loop (first_leg_week teams) weekFixtures ([], 1, 1) of
        Inl e \<Rightarrow> Inl e
      | Inr (matches, matchId, week) \<Rightarrow>
          (case leg_loop (second_leg_week teams) weekFixtures (matches, matchId, week) of
             Inl e \<Rightarrow> Inl e
           | Inr (matches', matchId', week') \<Rightarrow> Inr matches'))"

section \<open>Match outcome engine\<close>

text \<open>
  \<open>simulateMatch\<close>. The scoreline \<open>(homeTeamScore, awayTeamScore)\<close> that lines 132 to 164
  compute from the strengths and two draws of \<open>rand.Float64\<close> is the parameter \<open>sc\<close>;
  everything from line 166 on is modelled statement by statement.
\<close>

definition simulateMatch :: "goint \<times> goint \<Rightarrow> Match \<Rightarrow> team_heap \<Rightarrow> Match \<times> team_heap" where
  "simulateMatch sc match H =
     (if Played match then (match, H)
      else
        let homeTeam = HomeTeam match;
            awayTeam = AwayTeam match;
            homeTeamScore = fst sc;
            awayTeamScore = snd sc;
            match1 = match\<lparr>HomeTeamScore := homeTeamScore, AwayTeamScore := awayTeamScore\<rparr>;
            H1 = upd_team homeTeam (GoalsFor_update (\<lambda>g. g + homeTeamScore)) H;
            H2 = upd_team awayTeam (GoalsFor_update (\<lambda>g. g + awayTeamScore)) H1;
            H3 = upd_team homeTeam (GoalsAgainst_update (\<lambda>g. g + awayTeamScore)) H2;
            H4 = upd_team awayTeam (GoalsAgainst_update (\<lambda>g. g + homeTeamScore)) H3;
            H5 = (if awayTeamScore <s homeTeamScore then
                    upd_team homeTeam (Points_update (\<lambda>p. p + 3))
                      (upd_team awayTeam (Losses_update (\<lambda>l. l + 1))
                        (upd_team homeTeam (Wins_update (\<lambda>w. w + 1)) H4))
                  else if homeTeamScore <s awayTeamScore then
                    upd_team awayTeam (Points_update (\<lambda>p. p + 3))
                      (upd_team homeTeam (Losses_update (\<lambda>l. l + 1))
                        (upd_team awayTeam (Wins_update (\<lambda>w. w + 1)) H4))
                  else
                    upd_team awayTeam (Points_update (\<lambda>p. p + 1))
                      (upd_team homeTeam (Points_update (\<lambda>p. p + 1))
                        (upd_team awayTeam (Draws_update (\<lambda>d. d + 1))
                          (upd_team homeTeam (Draws_update (\<lambda>d. d + 1)) H4))));
            H6 = upd_team homeTeam (\<lambda>t. t\<lparr>GoalsDifference := GoalsFor t - GoalsAgainst t\<rparr>) H5;
            H7 = upd_team awayTeam (\<lambda>t. t\<lparr>GoalsDifference := GoalsFor t - GoalsAgainst t\<rparr>) H6
        in (match1\<lparr>Played := True\<rparr>, H7))"

section \<open>Standings builder\<close>

text \<open>
  \<open>sort.Slice\<close> of Go 1.24 (the Dockerfile's toolchain) hands a slice of at most 12
  elements to its insertion sort:
  \<^verbatim>\<open>for i := a + 1; i < b; i++ { for j := i; j > a && less(j, j-1); j-- { swap(j, j-1) } }\<close>
  \<open>bubble\<close> is the inner loop, on the already sorted prefix held back to front (its head
  is \<open>data[j-1]\<close>, and \<open>lt x y\<close> is \<open>less(j, j-1)\<close>); \<open>insertionSort_func\<close> is the outer
  loop. Longer slices take another
  path of the library, which is not modelled.
\<close>

fun bubble :: "('a \<Rightarrow> 'a \<Rightarrow> bool) \<Rightarrow> 'a \<Rightarrow> 'a list \<Rightarrow> 'a list" where
  "bubble lt x [] = [x]"
| "bubble lt x (y # rp) = (if lt x y then y # bubble lt x rp else x # y # rp)"

definition insertionSort_func :: "('a \<Rightarrow> 'a \<Rightarrow> bool) \<Rightarrow> 'a list \<Rightarrow> 'a list" where
  "insertionSort_func lt xs = rev (fold (bubble lt) xs [])"

text \<open>The \<open>less\<close> closure of \<open>updateLeagueTable\<close>, on the two entries it reads.\<close>

definition table_less :: "LeagueTableEntry \<Rightarrow> LeagueTableEntry \<Rightarrow> bool" where
  "table_less ei ej =
     (if Points_e ei = Points_e ej then GoalsDifference_e ej <s GoalsDifference_e ei
      else Points_e ej <s Points_e ei)"

definition table_entry :: "Team \<Rightarrow> LeagueTableEntry" where
  "table_entry team =
     \<lparr>TeamName_e = TeamName team,
      Played_e = Wins team + Draws team + Losses team,
      Wins_e = Wins team,
      Draws_e = Draws team,
      Losses_e = Losses team,
      GoalsFor_e = GoalsFor team,
      GoalsAgainst_e = GoalsAgainst team,
      GoalsDifference_e = GoalsFor team - GoalsAgainst team,
      Points_e = Points team,
      Position_e = 0\<rparr>"

fun assign_positions :: "nat \<Rightarrow> LeagueTableEntry list \<Rightarrow> LeagueTableEntry list" where
  "assign_positions i [] = []"
| "assign_positions i (entry # rest) =
     entry\<lparr>Position_e := of_nat i + 1\<rparr> # assign_positions (Suc i) rest"

definition updateLeagueTable :: "League \<Rightarrow> League" where
  "updateLeagueTable league =
     league\<lparr>LeagueTable :=
       assign_positions 0
         (insertionSort_func table_less (map (\<lambda>p. table_entry (Heap league p)) (Teams league)))\<rparr>"

section \<open>Weekly scheduler\<close>

text \<open>
  The loop of \<open>weeklySimulator\<close> over \<open>league.Matches\<close>. \<open>rnd k\<close> is the scoreline that
  \<open>simulateMatch\<close> draws for the match at position \<open>k\<close> of the slice.
\<close>

fun simulate_due ::
  "(nat \<Rightarrow> goint \<times> goint) \<Rightarrow> goint \<Rightarrow> nat \<Rightarrow> Match list \<Rightarrow> team_heap \<Rightarrow> Match list \<times> team_heap"
where
  "simulate_due rnd week k [] H = ([], H)"
| "simulate_due rnd week k (match # rest) H =
     (if Week match = week \<and> \<not> Played match then
        (case simulateMatch (rnd k) match H of
           (match', H') \<Rightarrow>
             (case simulate_due rnd week (Suc k) rest H' of
                (rest', H'') \<Rightarrow> (match' # rest', H'')))
      else
        (case simulate_due rnd week (Suc k) rest H of
           (rest', H'') \<Rightarrow> (match # rest', H'')))"

definition weeklySimulator :: "(nat \<Rightarrow> goint \<times> goint) \<Rightarrow> League \<Rightarrow> League" where
  "weeklySimulator rnd league =
     (let week = CurrentWeek league + 1 in
      case simulate_due rnd week 0 (Matches league) (Heap league) of
        (matches, H) \<Rightarrow>
          updateLeagueTable (league\<lparr>CurrentWeek := week, Matches := matches, Heap := H\<rparr>))"

section \<open>Persistence collaborator\<close>

text \<open>
  The storage service is outside the core: only whether each call fails is visible to the
  callers modelled here (\<open>Some err\<close> is a failure). \<open>None\<close> for the whole service is the
  nil interface of the console mode.
\<close>

record StorageService =
  SaveMatchResult :: "team_heap \<Rightarrow> Match \<Rightarrow> string option"
  UpdateTeam :: "Team \<Rightarrow> string option"
  UpdateCurrentWeek :: "goint \<Rightarrow> string option"

fun save_week_results :: "StorageService \<Rightarrow> team_heap \<Rightarrow> goint \<Rightarrow> Match list \<Rightarrow> string option" where
  "save_week_results st H week [] = None"
| "save_week_results st H week (match # rest) =
     (if Week match = week \<and> Played match then
        (case SaveMatchResult st H match of
           Some err \<Rightarrow> Some (''failed to save match result: '' @ err)
         | None \<Rightarrow> save_week_results st H week rest)
      else save_week_results st H week rest)"

fun update_teams :: "StorageService \<Rightarrow> team_heap \<Rightarrow> team_ptr list \<Rightarrow> string option" where
  "update_teams st H [] = None"
| "update_teams st H (team # rest) =
     (case UpdateTeam st (H team) of
        Some err \<Rightarrow> Some (''failed to update team: '' @ err)
      | None \<Rightarrow> update_teams st H rest)"

section \<open>Service and handlers\<close>

text \<open>The search loop of \<open>SimulateNextWeek\<close>: is a match of \<open>nextWeek\<close> still unplayed?\<close>

definition hasMatches :: "goint \<Rightarrow> Match list \<Rightarrow> bool" where
  "hasMatches nextWeek matches = list_ex (\<lambda>match. Week match = nextWeek \<and> \<not> Played match) matches"

text \<open>\<open>SimulateNextWeek\<close>: the returned error (\<open>None\<close> is \<open>nil\<close>) and the league as the
  call leaves it.\<close>

definition SimulateNextWeek ::
  "StorageService option \<Rightarrow> (nat \<Rightarrow> goint \<times> goint) \<Rightarrow> League \<Rightarrow> string option \<times> League"
where
  "SimulateNextWeek storageService rnd league =
     (let nextWeek = CurrentWeek league + 1 in
      if \<not> hasMatches nextWeek (Matches league) then (Some ''no more matches to simulate'', league)
         else
           let league' = weeklySimulator rnd league in
           (case storageService of
              None \<Rightarrow> (None, league')
            | Some st \<Rightarrow>
                (case UpdateCurrentWeek st (CurrentWeek league') of
                   Some err \<Rightarrow> (Some (''failed to update current week: '' @ err), league')
                 | None \<Rightarrow>
                     (case save_week_results st (Heap league') (CurrentWeek league') (Matches league') of
                        Some err \<Rightarrow> (Some err, league')
                      | None \<Rightarrow>
                          (case update_teams st (Heap league') (Teams league') of
                             Some err \<Rightarrow> (Some err, league')
                           | None \<Rightarrow> (None, league'))))))"

datatype http_error = HttpError string nat

text \<open>The search loop of \<open>editMatchResultHandler\<close>: the position of the first match with
  the id, \<open>None\<close> for \<open>targetMatch == nil\<close>.\<close>

fun find_match :: "goint \<Rightarrow> Match list \<Rightarrow> nat option" where
  "find_match matchId [] = None"
| "find_match matchId (match # rest) =
     (if MatchId match = matchId then Some 0 else map_option Suc (find_match matchId rest))"

text \<open>Lines 262 to 281: revert the statistics of the recorded scoreline.\<close>

definition revert_statistics :: "Match \<Rightarrow> team_heap \<Rightarrow> team_heap" where
  "revert_statistics targetMatch H =
     (let homeTeam = HomeTeam targetMatch;
          awayTeam = AwayTeam targetMatch;
          H1 = upd_team homeTeam (GoalsFor_update (\<lambda>g. g - HomeTeamScore targetMatch)) H;
          H2 = upd_team awayTeam (GoalsFor_update (\<lambda>g. g - AwayTeamScore targetMatch)) H1;
          H3 = upd_team homeTeam (GoalsAgainst_update (\<lambda>g. g - AwayTeamScore targetMatch)) H2;
          H4 = upd_team awayTeam (GoalsAgainst_update (\<lambda>g. g - HomeTeamScore targetMatch)) H3
      in if AwayTeamScore targetMatch <s HomeTeamScore targetMatch then
           upd_team homeTeam (Points_update (\<lambda>p. p - 3))
             (upd_team awayTeam (Losses_update (\<lambda>l. l - 1))
               (upd_team homeTeam (Wins_update (\<lambda>w. w - 1)) H4))
         else if HomeTeamScore targetMatch <s AwayTeamScore targetMatch then
           upd_team awayTeam (Points_update (\<lambda>p. p - 3))
             (upd_team homeTeam (Losses_update (\<lambda>l. l - 1))
               (upd_team awayTeam (Wins_update (\<lambda>w. w - 1)) H4))
         else
           upd_team awayTeam (Points_update (\<lambda>p. p - 1))
             (upd_team homeTeam (Points_update (\<lambda>p. p - 1))
               (upd_team awayTeam (Draws_update (\<lambda>d. d - 1))
                 (upd_team homeTeam (Draws_update (\<lambda>d. d - 1)) H4))))"

text \<open>Lines 288 to 311: apply the scoreline now recorded on the match.\<close>

definition apply_statistics :: "Match \<Rightarrow> team_heap \<Rightarrow> team_heap" where
  "apply_statistics targetMatch H =
     (let homeTeam = HomeTeam targetMatch;
          awayTeam = AwayTeam targetMatch;
          H1 = upd_team homeTeam (GoalsFor_update (\<lambda>g. g + HomeTeamScore targetMatch)) H;
          H2 = upd_team awayTeam (GoalsFor_update (\<lambda>g. g + AwayTeamScore targetMatch)) H1;
          H3 = upd_team homeTeam (GoalsAgainst_update (\<lambda>g. g + AwayTeamScore targetMatch)) H2;
          H4 = upd_team awayTeam (GoalsAgainst_update (\<lambda>g. g + HomeTeamScore targetMatch)) H3;
          H5 = (if AwayTeamScore targetMatch <s HomeTeamScore targetMatch then
                  upd_team homeTeam (Points_update (\<lambda>p. p + 3))
                    (upd_team awayTeam (Losses_update (\<lambda>l. l + 1))
                      (upd_team homeTeam (Wins_update (\<lambda>w. w + 1)) H4))
                else if HomeTeamScore targetMatch <s AwayTeamScore targetMatch then
                  upd_team awayTeam (Points_update (\<lambda>p. p + 3))
                    (upd_team homeTeam (Losses_update (\<lambda>l. l + 1))
                      (upd_team awayTeam (Wins_update (\<lambda>w. w + 1)) H4))
                else
                  upd_team awayTeam (Points_update (\<lambda>p. p + 1))
                    (upd_team homeTeam (Points_update (\<lambda>p. p + 1))
                      (upd_team awayTeam (Draws_update (\<lambda>d. d + 1))
                        (upd_team homeTeam (Draws_update (\<lambda>d. d + 1)) H4))));
          H6 = upd_team homeTeam (\<lambda>t. t\<lparr>GoalsDifference := GoalsFor t - GoalsAgainst t\<rparr>) H5
      in upd_team awayTeam (\<lambda>t. t\<lparr>GoalsDifference := GoalsFor t - GoalsAgainst t\<rparr>) H6)"

text \<open>
  \<open>editMatchResultHandler\<close> on the global league. \<open>matchId\<close> is what \<open>strconv.Atoi\<close> made
  of the path variable and \<open>requestBody\<close> what the JSON decoder made of the body
  (\<open>home_score\<close>, \<open>away_score\<close>); \<open>None\<close> is the library's error. A body that the
  decoder accepts without one of the keys, such as \<open>{}\<close>, is \<open>Some\<close> with 0 for that
  score. The result is the response (an error with its status, or the table that is
  encoded) and the league as the handler leaves it.
\<close>

definition editMatchResultHandler ::
  "StorageService option \<Rightarrow> goint option \<Rightarrow> (goint \<times> goint) option \<Rightarrow> League \<Rightarrow>
   (http_error + LeagueTableEntry list) \<times> League"
where
  "editMatchResultHandler storageService matchId requestBody globalLeague =
     (case matchId of
        None \<Rightarrow> (Inl (HttpError ''Invalid match ID'' 400), globalLeague)
      | Some mid \<Rightarrow>
     (case requestBody of
        None \<Rightarrow> (Inl (HttpError ''Invalid request body'' 400), globalLeague)
      | Some (HomeScore, AwayScore) \<Rightarrow>
     (case find_match mid (Matches globalLeague) of
        None \<Rightarrow> (Inl (HttpError ''Match not found'' 404), globalLeague)
      | Some i \<Rightarrow>
          let targetMatch = Matches globalLeague ! i in
          if \<not> Played targetMatch then
            (Inl (HttpError ''Cannot edit unplayed match'' 400), globalLeague)
          else
            let H = revert_statistics targetMatch (Heap globalLeague);
                targetMatch' = targetMatch\<lparr>HomeTeamScore := HomeScore, AwayTeamScore := AwayScore\<rparr>;
                H' = apply_statistics targetMatch' H;
                league' = updateLeagueTable
                  (globalLeague\<lparr>Heap := H', Matches := (Matches globalLeague)[i := targetMatch']\<rparr>)
            in
            (case storageService of
               None \<Rightarrow> (Inr (LeagueTable league'), league')
             | Some st \<Rightarrow>
                 (case SaveMatchResult st H' targetMatch' of
                    Some err \<Rightarrow> (Inl (HttpError (''Failed to save match: '' @ err) 500), league')
                  | None \<Rightarrow>
                      (case UpdateTeam st (H' (HomeTeam targetMatch')) of
                         Some err \<Rightarrow>
                           (Inl (HttpError (''Failed to update home team: '' @ err) 500), league')
                       | None \<Rightarrow>
                           (case UpdateTeam st (H' (AwayTeam targetMatch')) of
                              Some err \<Rightarrow>
                                (Inl (HttpError (''Failed to update away team: '' @ err) 500), league')
                            | None \<Rightarrow> (Inr (LeagueTable league'), league'))))))))"

text \<open>The league of \<open>main\<close>: the four teams at the addresses 0 to 3, their fixtures, week 0,
  an empty table.\<close>

definition main_heap :: team_heap where
  "main_heap p = (if p < 4 then createPremierLeagueTeams ! p else new_team [] 0 0)"

definition main_league :: League where
  "main_league =
     \<lparr>Heap = main_heap,
      Teams = [0, 1, 2, 3],
      Matches = (case createPremierLeagueMatches [0, 1, 2, 3] of Inr matches \<Rightarrow> matches | Inl e \<Rightarrow> []),
      CurrentWeek = 0,
      LeagueTable = []\<rparr>"

chapter \<open>Notions used by the properties\<close>

section \<open>What one recorded scoreline contributes to a team\<close>

text \<open>
  The three outcomes, in the order in which \<open>simulateMatch\<close> and the correction test them.
\<close>

definition home_win :: "Match \<Rightarrow> bool" where
  "home_win m = (AwayTeamScore m <s HomeTeamScore m)"

definition away_win :: "Match \<Rightarrow> bool" where
  "away_win m = (\<not> AwayTeamScore m <s HomeTeamScore m \<and> HomeTeamScore m <s AwayTeamScore m)"

definition drawn :: "Match \<Rightarrow> bool" where
  "drawn m = (\<not> AwayTeamScore m <s HomeTeamScore m \<and> \<not> HomeTeamScore m <s AwayTeamScore m)"

text \<open>The contribution of the recorded scoreline of match \<open>m\<close> to each counter of the
  team at address \<open>q\<close> (zero for a team that does not play in \<open>m\<close>).\<close>

definition goals_for_of :: "Match \<Rightarrow> team_ptr \<Rightarrow> goint" where
  "goals_for_of m q = (if q = HomeTeam m then HomeTeamScore m else 0) + (if q = AwayTeam m then AwayTeamScore m else 0)"

definition goals_against_of :: "Match \<Rightarrow> team_ptr \<Rightarrow> goint" where
  "goals_against_of m q = (if q = HomeTeam m then AwayTeamScore m else 0) + (if q = AwayTeam m then HomeTeamScore m else 0)"

definition wins_of :: "Match \<Rightarrow> team_ptr \<Rightarrow> goint" where
  "wins_of m q = (if q = HomeTeam m \<and> home_win m then 1 else 0) + (if q = AwayTeam m \<and> away_win m then 1 else 0)"

definition losses_of :: "Match \<Rightarrow> team_ptr \<Rightarrow> goint" where
  "losses_of m q = (if q = AwayTeam m \<and> home_win m then 1 else 0) + (if q = HomeTeam m \<and> away_win m then 1 else 0)"

definition draws_of :: "Match \<Rightarrow> team_ptr \<Rightarrow> goint" where
  "draws_of m q = (if q = HomeTeam m \<and> drawn m then 1 else 0) + (if q = AwayTeam m \<and> drawn m then 1 else 0)"

definition points_of :: "Match \<Rightarrow> team_ptr \<Rightarrow> goint" where
  "points_of m q = 3 * wins_of m q + draws_of m q"

text \<open>The contributions of all played matches of a fixture list, added up.\<close>

definition total :: "(Match \<Rightarrow> team_ptr \<Rightarrow> goint) \<Rightarrow> Match list \<Rightarrow> team_ptr \<Rightarrow> goint" where
  "total f ms q = sum_list (map (\<lambda>m. if Played m then f m q else 0) ms)"

text \<open>The ledger of the team at \<open>q\<close> that started as \<open>t0\<close>, after the played matches of
  \<open>ms\<close>.\<close>

definition ledger_of :: "Team \<Rightarrow> Match list \<Rightarrow> team_ptr \<Rightarrow> Team" where
  "ledger_of t0 ms q =
     t0\<lparr>GoalsFor := GoalsFor t0 + total goals_for_of ms q,
        GoalsAgainst := GoalsAgainst t0 + total goals_against_of ms q,
        Wins := Wins t0 + total wins_of ms q,
        Draws := Draws t0 + total draws_of ms q,
        Losses := Losses t0 + total losses_of ms q,
        Points := Points t0 + total points_of ms q,
        GoalsDifference :=
          (GoalsFor t0 + total goals_for_of ms q) - (GoalsAgainst t0 + total goals_against_of ms q)\<rparr>"

section \<open>Recorded results applied by the outcome engine from the start\<close>

text \<open>
  \<open>replay_results matches H\<close> runs \<open>simulateMatch\<close> on every played fixture of \<open>matches\<close>,
  in fixture order, as if the fixture were still to be played and the engine drew the
  scoreline that the fixture records, starting from the ledgers \<open>H\<close>.
\<close>

definition replay_results :: "Match list \<Rightarrow> team_heap \<Rightarrow> team_heap" where
  "replay_results matches H =
     fold (\<lambda>m H'. if Played m
                   then snd (simulateMatch (HomeTeamScore m, AwayTeamScore m) (m\<lparr>Played := False\<rparr>) H')
                   else H') matches H"

section \<open>Reachable leagues\<close>

text \<open>
  The leagues that sequences of match simulations and corrections produce from \<open>s0\<close>: a
  single \<open>simulateMatch\<close> on any fixture, a \<open>weeklySimulator\<close> round, a
  \<open>SimulateNextWeek\<close> call and an \<open>editMatchResultHandler\<close> request, each with any
  scorelines, any request and any behaviour of the storage service.
\<close>

inductive reachable :: "League \<Rightarrow> League \<Rightarrow> bool" for s0 :: League where
  reach_init: "reachable s0 s0"
| reach_match: "reachable s0 s \<Longrightarrow> k < length (Matches s) \<Longrightarrow>
                simulateMatch sc (Matches s ! k) (Heap s) = (m', H') \<Longrightarrow>
                reachable s0 (s\<lparr>Heap := H', Matches := (Matches s)[k := m']\<rparr>)"
| reach_week: "reachable s0 s \<Longrightarrow> reachable s0 (weeklySimulator rnd s)"
| reach_next: "reachable s0 s \<Longrightarrow> SimulateNextWeek st rnd s = (r, s') \<Longrightarrow> reachable s0 s'"
| reach_edit: "reachable s0 s \<Longrightarrow> editMatchResultHandler st mid body s = (r, s') \<Longrightarrow>
               reachable s0 s'"

text \<open>Conditions on a league at the start: every team's goal difference is the difference
  of its goals; no fixture is played yet; every counter of every team is zero; the two
  sides of every fixture are different teams.\<close>

definition gd_consistent :: "team_heap \<Rightarrow> bool" where
  "gd_consistent H = (\<forall>p. GoalsDifference (H p) = GoalsFor (H p) - GoalsAgainst (H p))"

definition unplayed_fixtures :: "League \<Rightarrow> bool" where
  "unplayed_fixtures s = (\<forall>m \<in> set (Matches s). \<not> Played m)"

definition zero_ledgers :: "team_heap \<Rightarrow> bool" where
  "zero_ledgers H =
     (\<forall>p. GoalsFor (H p) = 0 \<and> GoalsAgainst (H p) = 0 \<and> Wins (H p) = 0 \<and> Draws (H p) = 0 \<and>
          Losses (H p) = 0 \<and> Points (H p) = 0 \<and> GoalsDifference (H p) = 0)"

definition two_sided :: "League \<Rightarrow> bool" where
  "two_sided s = (\<forall>m \<in> set (Matches s). HomeTeam m \<noteq> AwayTeam m)"

text \<open>The number of played matches that refer to the team at \<open>p\<close>.\<close>

definition played_involving :: "team_ptr \<Rightarrow> Match list \<Rightarrow> nat" where
  "played_involving p ms = length (filter (\<lambda>m. Played m \<and> (HomeTeam m = p \<or> AwayTeam m = p)) ms)"

text \<open>The two team pointers of every fixture: no operation changes them.\<close>

definition sides :: "Match list \<Rightarrow> (team_ptr \<times> team_ptr) list" where
  "sides ms = map (\<lambda>m. (HomeTeam m, AwayTeam m)) ms"

definition ledger_inv :: "League \<Rightarrow> League \<Rightarrow> bool" where
  "ledger_inv s0 s = (\<forall>q. Heap s q = ledger_of (Heap s0 q) (Matches s) q)"





section \<open>Standings\<close>

text \<open>The sort key of a team: its points, then its goals scored minus its goals conceded,
  as signed integers.\<close>

definition team_key :: "Team \<Rightarrow> int \<times> int" where
  "team_key t = (sint (Points t), sint (GoalsFor t - GoalsAgainst t))"

text \<open>Team \<open>a\<close> may stand above team \<open>b\<close>: more points, or the same points and at least
  the goal difference.\<close>

definition team_ranks_above :: "Team \<Rightarrow> Team \<Rightarrow> bool" where
  "team_ranks_above a b =
     (sint (Points b) < sint (Points a) \<or>
      Points a = Points b \<and>
        sint (GoalsFor b - GoalsAgainst b) \<le> sint (GoalsFor a - GoalsAgainst a))"

text \<open>The teams level on points and on goal difference.\<close>

definition team_tied_at :: "goint \<Rightarrow> goint \<Rightarrow> Team \<Rightarrow> bool" where
  "team_tied_at pts gd t = (Points t = pts \<and> GoalsFor t - GoalsAgainst t = gd)"

text \<open>The comparison of \<open>updateLeagueTable\<close> on the entries of two teams of the heap.\<close>

definition ptr_less :: "team_heap \<Rightarrow> team_ptr \<Rightarrow> team_ptr \<Rightarrow> bool" where
  "ptr_less H p q = table_less (table_entry (H p)) (table_entry (H q))"

section \<open>Fixture counts\<close>

text \<open>The competitors of the matches of week \<open>w\<close>, home before away, in fixture order.\<close>

definition participants :: "goint \<Rightarrow> Match list \<Rightarrow> team_ptr list" where
  "participants w ms = concat (map (\<lambda>m. [HomeTeam m, AwayTeam m]) (filter (\<lambda>m. Week m = w) ms))"

text \<open>The matches of a team: at home, away, and both.\<close>

definition home_games :: "team_ptr \<Rightarrow> Match list \<Rightarrow> nat" where
  "home_games t ms = length (filter (\<lambda>m. HomeTeam m = t) ms)"

definition away_games :: "team_ptr \<Rightarrow> Match list \<Rightarrow> nat" where
  "away_games t ms = length (filter (\<lambda>m. AwayTeam m = t) ms)"

definition games :: "team_ptr \<Rightarrow> Match list \<Rightarrow> nat" where
  "games t ms = length (filter (\<lambda>m. HomeTeam m = t \<or> AwayTeam m = t) ms)"

section \<open>Example leagues\<close>

text \<open>
  A scoreline that \<open>simulateMatch\<close> can draw for every fixture of the console league: the
  home sides have an expected 3.9 to 4.3 goals and the away sides 3.7 to 4.1, each moved by
  less than one goal.
\<close>

definition example_scores :: "nat \<Rightarrow> goint \<times> goint" where
  "example_scores k = (4, 3)"

text \<open>The console league after its first week, after the correction of match 1 to 2:2 that
  follows, and after all six weeks.\<close>

definition week1_league :: League where
  "week1_league = weeklySimulator example_scores main_league"

definition corrected_week1 :: League where
  "corrected_week1 = snd (editMatchResultHandler None (Some 1) (Some (2, 2)) week1_league)"

definition season_over_league :: League where
  "season_over_league = (weeklySimulator example_scores ^^ 6) main_league"

text \<open>The request \<open>PUT /league/matches/1\<close> with the body
  \<open>{"home_score": -1, "away_score": 0}\<close> after the first week.\<close>

definition negative_correction :: "(http_error + LeagueTableEntry list) \<times> League" where
  "negative_correction = editMatchResultHandler None (Some 1) (Some (- 1, 0)) week1_league"

chapter \<open>Properties\<close>

section \<open>The outcome engine and the correction, team by team\<close>

lemmas delta_defs = home_win_def away_win_def drawn_def goals_for_of_def goals_against_of_def
  wins_of_def losses_of_def draws_of_def points_of_def

text \<open>The heap after the statements of lines 288 to 311, read at any address.\<close>

lemma apply_statistics_at:
  "apply_statistics m H q =
     (H q)\<lparr>GoalsFor := GoalsFor (H q) + goals_for_of m q,
           GoalsAgainst := GoalsAgainst (H q) + goals_against_of m q,
           Wins := Wins (H q) + wins_of m q,
           Draws := Draws (H q) + draws_of m q,
           Losses := Losses (H q) + losses_of m q,
           Points := Points (H q) + points_of m q,
           GoalsDifference :=
             (if q = HomeTeam m \<or> q = AwayTeam m
              then (GoalsFor (H q) + goals_for_of m q) - (GoalsAgainst (H q) + goals_against_of m q)
              else GoalsDifference (H q))\<rparr>"
  by (simp add: apply_statistics_def upd_team_def Let_def delta_defs)

text \<open>The heap after the statements of lines 262 to 281: the goal difference is not
  touched there.\<close>

lemma revert_statistics_at:
  "revert_statistics m H q =
     (H q)\<lparr>GoalsFor := GoalsFor (H q) - goals_for_of m q,
           GoalsAgainst := GoalsAgainst (H q) - goals_against_of m q,
           Wins := Wins (H q) - wins_of m q,
           Draws := Draws (H q) - draws_of m q,
           Losses := Losses (H q) - losses_of m q,
           Points := Points (H q) - points_of m q\<rparr>"
  by (simp add: revert_statistics_def upd_team_def Let_def delta_defs)

lemma simulateMatch_unplayed:
  "\<not> Played m \<Longrightarrow>
   simulateMatch sc m H =
     (m\<lparr>HomeTeamScore := fst sc, AwayTeamScore := snd sc, Played := True\<rparr>,
      apply_statistics (m\<lparr>HomeTeamScore := fst sc, AwayTeamScore := snd sc\<rparr>) H)"
  by (simp add: simulateMatch_def apply_statistics_def Let_def)

lemma simulateMatch_played: "Played m \<Longrightarrow> simulateMatch sc m H = (m, H)"
  by (simp add: simulateMatch_def)

lemma delta_Played_update [simp]:
  "goals_for_of (m\<lparr>Played := b\<rparr>) = goals_for_of m"
  "goals_against_of (m\<lparr>Played := b\<rparr>) = goals_against_of m"
  "wins_of (m\<lparr>Played := b\<rparr>) = wins_of m"
  "draws_of (m\<lparr>Played := b\<rparr>) = draws_of m"
  "losses_of (m\<lparr>Played := b\<rparr>) = losses_of m"
  "points_of (m\<lparr>Played := b\<rparr>) = points_of m"
  by (simp_all add: delta_defs fun_eq_iff)

lemma delta_outside:
  "q \<noteq> HomeTeam m \<Longrightarrow> q \<noteq> AwayTeam m \<Longrightarrow>
   goals_for_of m q = 0 \<and> goals_against_of m q = 0 \<and> wins_of m q = 0 \<and> draws_of m q = 0 \<and>
   losses_of m q = 0 \<and> points_of m q = 0"
  by (simp add: delta_defs)

lemma apply_statistics_Played: "apply_statistics (m\<lparr>Played := b\<rparr>) = apply_statistics m"
  by (rule ext, rule ext) (simp add: apply_statistics_at)

lemma simulateMatch_unplayed':
  "\<not> Played m \<Longrightarrow>
   simulateMatch sc m H =
     (m\<lparr>HomeTeamScore := fst sc, AwayTeamScore := snd sc, Played := True\<rparr>,
      apply_statistics (m\<lparr>HomeTeamScore := fst sc, AwayTeamScore := snd sc, Played := True\<rparr>) H)"
  by (simp add: simulateMatch_unplayed apply_statistics_Played)

lemma simulateMatch_sides:
  "simulateMatch sc m H = (m', H') \<Longrightarrow> HomeTeam m' = HomeTeam m \<and> AwayTeam m' = AwayTeam m"
  by (cases "Played m") (auto simp: simulateMatch_unplayed simulateMatch_played)

lemma simulate_due_sides:
  "simulate_due rnd w k ms H = (ms', H') \<Longrightarrow> sides ms' = sides ms"
proof (induction ms arbitrary: k H ms' H')
  case Nil
  then show ?case by simp
next
  case (Cons m rest)
  then show ?case
    by (auto simp: sides_def split: if_splits prod.splits dest: simulateMatch_sides)
qed

lemma updateLeagueTable_fields [simp]:
  "Heap (updateLeagueTable s) = Heap s"
  "Matches (updateLeagueTable s) = Matches s"
  "Teams (updateLeagueTable s) = Teams s"
  "CurrentWeek (updateLeagueTable s) = CurrentWeek s"
  by (simp_all add: updateLeagueTable_def)

lemma weeklySimulator_frame:
  "sides (Matches (weeklySimulator rnd s)) = sides (Matches s) \<and>
   Teams (weeklySimulator rnd s) = Teams s"
proof -
  obtain ms' H' where sd: "simulate_due rnd (CurrentWeek s + 1) 0 (Matches s) (Heap s) = (ms', H')"
    by (cases "simulate_due rnd (CurrentWeek s + 1) 0 (Matches s) (Heap s)")
  from simulate_due_sides [OF sd] show ?thesis
    by (simp add: weeklySimulator_def sd Let_def)
qed

lemma weeklySimulator_week [simp]: "CurrentWeek (weeklySimulator rnd s) = CurrentWeek s + 1"
  by (simp add: weeklySimulator_def Let_def split: prod.splits)

lemma weeklySimulator_matches:
  "Matches (weeklySimulator rnd s) = fst (simulate_due rnd (CurrentWeek s + 1) 0 (Matches s) (Heap s))"
  by (simp add: weeklySimulator_def Let_def split: prod.splits)

lemma fst_simulate_due_Cons:
  "fst (simulate_due rnd w k (m # rest) H) =
     (if Week m = w \<and> \<not> Played m
      then m\<lparr>HomeTeamScore := fst (rnd k), AwayTeamScore := snd (rnd k), Played := True\<rparr> #
           fst (simulate_due rnd w (Suc k) rest
                  (apply_statistics (m\<lparr>HomeTeamScore := fst (rnd k), AwayTeamScore := snd (rnd k)\<rparr>) H))
      else m # fst (simulate_due rnd w (Suc k) rest H))"
  by (simp add: simulateMatch_unplayed split: prod.splits)

lemma SimulateNextWeek_cases:
  "SimulateNextWeek st rnd s = (r, s') \<Longrightarrow> s' = s \<or> s' = weeklySimulator rnd s"
  by (auto simp: SimulateNextWeek_def Let_def split: if_splits option.splits)

lemma find_match_bound: "find_match mid ms = Some i \<Longrightarrow> i < length ms"
  by (induction ms arbitrary: i) (auto split: if_splits)

lemma find_match_update:
  "find_match mid ms = Some i \<Longrightarrow> MatchId m' = MatchId (ms ! i) \<Longrightarrow>
   find_match mid (ms[i := m']) = Some i"
proof (induction ms arbitrary: i)
  case Nil
  then show ?case by simp
next
  case (Cons m ms)
  then show ?case by (cases i) (auto split: if_splits)
qed

lemma sides_update:
  "i < length ms \<Longrightarrow> HomeTeam m' = HomeTeam (ms ! i) \<Longrightarrow> AwayTeam m' = AwayTeam (ms ! i) \<Longrightarrow>
   sides (ms[i := m']) = sides ms"
  by (simp add: sides_def map_update list_update_same_conv)

text \<open>A correction request either leaves the league as it is or rewrites one played
  fixture, whatever the storage service answers.\<close>

lemma editMatchResultHandler_cases:
  assumes "editMatchResultHandler st mid body s = (r, s')"
  shows "s' = s \<or>
         (\<exists>i id h a. mid = Some id \<and> body = Some (h, a) \<and> find_match id (Matches s) = Some i \<and>
            Played (Matches s ! i) \<and>
            s' = updateLeagueTable
                   (s\<lparr>Heap := apply_statistics ((Matches s ! i)\<lparr>HomeTeamScore := h, AwayTeamScore := a\<rparr>)
                                 (revert_statistics (Matches s ! i) (Heap s)),
                      Matches := (Matches s)[i := (Matches s ! i)\<lparr>HomeTeamScore := h, AwayTeamScore := a\<rparr>]\<rparr>))"
  using assms
  by (auto simp: editMatchResultHandler_def Let_def split: if_splits option.splits)

lemma editMatchResultHandler_played:
  assumes "find_match mid (Matches s) = Some i" and "Played (Matches s ! i)"
  shows "snd (editMatchResultHandler st (Some mid) (Some (h, a)) s) =
         updateLeagueTable
           (s\<lparr>Heap := apply_statistics ((Matches s ! i)\<lparr>HomeTeamScore := h, AwayTeamScore := a\<rparr>)
                         (revert_statistics (Matches s ! i) (Heap s)),
              Matches := (Matches s)[i := (Matches s ! i)\<lparr>HomeTeamScore := h, AwayTeamScore := a\<rparr>]\<rparr>)"
  using assms
  by (simp add: editMatchResultHandler_def Let_def split: option.splits)

section \<open>The ledgers as sums over the played fixtures\<close>

lemma total_Nil [simp]: "total f [] q = 0"
  by (simp add: total_def)

lemma total_Cons [simp]: "total f (m # ms) q = (if Played m then f m q else 0) + total f ms q"
  by (simp add: total_def)

lemma total_append [simp]: "total f (xs @ ys) q = total f xs q + total f ys q"
  by (simp add: total_def)

lemma total_unplayed: "\<forall>m \<in> set ms. \<not> Played m \<Longrightarrow> total f ms q = 0"
  by (induction ms) auto

lemma total_update:
  "i < length ms \<Longrightarrow>
   total f (ms[i := m']) q =
     total f ms q - (if Played (ms ! i) then f (ms ! i) q else 0) + (if Played m' then f m' q else 0)"
proof (induction ms arbitrary: i)
  case Nil
  then show ?case by simp
next
  case (Cons m ms)
  show ?case
  proof (cases i)
    case 0
    then show ?thesis by simp
  next
    case (Suc j)
    with Cons.prems have "j < length ms" by simp
    from Cons.IH [OF this] Suc show ?thesis by simp
  qed
qed

lemma ledger_of_apply:
  assumes "i < length ms" and "\<not> Played (ms ! i)" and "Played m'"
    and "H q = ledger_of t0 ms q"
  shows "apply_statistics m' H q = ledger_of t0 (ms[i := m']) q"
  using assms delta_outside [of q m']
  by (simp add: apply_statistics_at ledger_of_def total_update add.assoc)

lemma ledger_of_edit:
  assumes "i < length ms" and "Played (ms ! i)" and "Played m'"
    and "HomeTeam m' = HomeTeam (ms ! i)" and "AwayTeam m' = AwayTeam (ms ! i)"
    and "H q = ledger_of t0 ms q"
  shows "apply_statistics m' (revert_statistics (ms ! i) H) q = ledger_of t0 (ms[i := m']) q"
  using assms delta_outside [of q m'] delta_outside [of q "ms ! i"]
  by (simp add: apply_statistics_at revert_statistics_at ledger_of_def total_update algebra_simps)

lemma replay_step_at:
  "Played m \<Longrightarrow>
   snd (simulateMatch (HomeTeamScore m, AwayTeamScore m) (m\<lparr>Played := False\<rparr>) H) = apply_statistics m H"
  by (rule ext) (simp add: simulateMatch_unplayed apply_statistics_at delta_defs)

lemma apply_statistics_gd_consistent:
  "gd_consistent H \<Longrightarrow> gd_consistent (apply_statistics m H)"
  using delta_outside [of _ m]
  by (simp add: gd_consistent_def apply_statistics_at)

lemma replay_results_at:
  "gd_consistent H \<Longrightarrow> replay_results ms H q = ledger_of (H q) ms q"
proof (induction ms arbitrary: H)
  case Nil
  then show ?case by (simp add: replay_results_def ledger_of_def gd_consistent_def)
next
  case (Cons m ms)
  show ?case
  proof (cases "Played m")
    case True
    have "replay_results (m # ms) H q = replay_results ms (apply_statistics m H) q"
      using True by (simp add: replay_results_def replay_step_at)
    also have "\<dots> = ledger_of (apply_statistics m H q) ms q"
      by (rule Cons.IH) (rule apply_statistics_gd_consistent [OF Cons.prems])
    also have "\<dots> = ledger_of (H q) (m # ms) q"
      using True by (simp add: ledger_of_def apply_statistics_at add.assoc)
    finally show ?thesis .
  next
    case False
    have "replay_results (m # ms) H q = replay_results ms H q"
      using False by (simp add: replay_results_def)
    also have "\<dots> = ledger_of (H q) ms q"
      by (rule Cons.IH) (rule Cons.prems)
    also have "\<dots> = ledger_of (H q) (m # ms) q"
      using False by (simp add: ledger_of_def)
    finally show ?thesis .
  qed
qed

lemma simulate_due_ledger:
  assumes "simulate_due rnd w k ms H = (ms', H')"
    and "\<forall>q. H q = ledger_of (T0 q) (pre @ ms) q"
  shows "\<forall>q. H' q = ledger_of (T0 q) (pre @ ms') q"
  using assms
proof (induction ms arbitrary: k H pre ms' H')
  case Nil
  then show ?case by auto
next
  case (Cons m rest)
  show ?case
  proof (cases "Week m = w \<and> \<not> Played m")
    case True
    define m1 where "m1 = m\<lparr>HomeTeamScore := fst (rnd k), AwayTeamScore := snd (rnd k), Played := True\<rparr>"
    obtain rest' where r: "simulate_due rnd w (Suc k) rest (apply_statistics m1 H) = (rest', H')"
      and ms': "ms' = m1 # rest'"
      using Cons.prems(1) True
      by (auto simp: simulateMatch_unplayed' m1_def split: prod.splits)
    have "\<forall>q. apply_statistics m1 H q = ledger_of (T0 q) ((pre @ [m1]) @ rest) q"
    proof
      fix q
      have "apply_statistics m1 H q = ledger_of (T0 q) ((pre @ m # rest)[length pre := m1]) q"
        by (rule ledger_of_apply) (use True Cons.prems(2) in \<open>simp_all add: m1_def\<close>)
      then show "apply_statistics m1 H q = ledger_of (T0 q) ((pre @ [m1]) @ rest) q"
        by simp
    qed
    from Cons.IH [OF r this] show ?thesis by (simp add: ms')
  next
    case False
    obtain rest' where r: "simulate_due rnd w (Suc k) rest H = (rest', H')"
      and ms': "ms' = m # rest'"
      using Cons.prems(1) False by (auto split: prod.splits)
    have "\<forall>q. H q = ledger_of (T0 q) ((pre @ [m]) @ rest) q"
      using Cons.prems(2) by simp
    from Cons.IH [OF r this] show ?thesis by (simp add: ms')
  qed
qed

lemma weeklySimulator_ledger:
  assumes "ledger_inv s0 s"
  shows "ledger_inv s0 (weeklySimulator rnd s)"
proof -
  obtain ms' H' where sd: "simulate_due rnd (CurrentWeek s + 1) 0 (Matches s) (Heap s) = (ms', H')"
    by (cases "simulate_due rnd (CurrentWeek s + 1) 0 (Matches s) (Heap s)")
  have "\<forall>q. Heap s q = ledger_of (Heap s0 q) ([] @ Matches s) q"
    using assms by (simp add: ledger_inv_def)
  from simulate_due_ledger [OF sd this] show ?thesis
    by (simp add: weeklySimulator_def sd ledger_inv_def Let_def)
qed


text \<open>Every operation keeps each ledger equal to its initial value plus the contributions
  of the fixtures now marked played, with their current scorelines.\<close>

lemma reachable_ledger:
  assumes "unplayed_fixtures s0" and "gd_consistent (Heap s0)" and "reachable s0 s"
  shows "ledger_inv s0 s \<and> sides (Matches s) = sides (Matches s0) \<and> Teams s = Teams s0"
  using assms(3)
proof (induction rule: reachable.induct)
  case reach_init
  show ?case
    using assms(1,2)
    by (simp add: ledger_inv_def ledger_of_def total_unplayed unplayed_fixtures_def gd_consistent_def)
next
  case (reach_match s k sc m' H')
  show ?case
  proof (cases "Played (Matches s ! k)")
    case True
    with reach_match.hyps(3) have "m' = Matches s ! k" and "H' = Heap s"
      by (simp_all add: simulateMatch_played)
    with reach_match.IH show ?thesis
      by (simp add: ledger_inv_def)
  next
    case False
    with reach_match.hyps(3)
    have m': "m' = (Matches s ! k)\<lparr>HomeTeamScore := fst sc, AwayTeamScore := snd sc, Played := True\<rparr>"
      and H': "H' = apply_statistics m' (Heap s)"
      by (auto simp add: simulateMatch_unplayed')
    have "ledger_of (Heap s0 q) ((Matches s)[k := m']) q = H' q" for q
      unfolding H'
      by (rule ledger_of_apply [symmetric])
         (use reach_match False in \<open>simp_all add: m' ledger_inv_def\<close>)
    moreover have "sides ((Matches s)[k := m']) = sides (Matches s)"
      by (rule sides_update) (use reach_match.hyps(2) in \<open>simp_all add: m'\<close>)
    ultimately show ?thesis
      using reach_match.IH by (simp add: ledger_inv_def)
  qed
next
  case (reach_week s rnd)
  then show ?case
    by (simp add: weeklySimulator_ledger weeklySimulator_frame)
next
  case (reach_next s st rnd r s')
  from SimulateNextWeek_cases [OF reach_next.hyps(2)] reach_next.IH show ?case
    by (auto simp: weeklySimulator_ledger weeklySimulator_frame)
next
  case (reach_edit s st mid body r s')
  from editMatchResultHandler_cases [OF reach_edit.hyps(2)] show ?case
  proof
    assume "s' = s"
    with reach_edit.IH show ?thesis by simp
  next
    assume "\<exists>i id h a. mid = Some id \<and> body = Some (h, a) \<and> find_match id (Matches s) = Some i \<and>
            Played (Matches s ! i) \<and>
            s' = updateLeagueTable
                   (s\<lparr>Heap := apply_statistics ((Matches s ! i)\<lparr>HomeTeamScore := h, AwayTeamScore := a\<rparr>)
                                 (revert_statistics (Matches s ! i) (Heap s)),
                      Matches := (Matches s)[i := (Matches s ! i)\<lparr>HomeTeamScore := h, AwayTeamScore := a\<rparr>]\<rparr>)"
    then obtain i id h a where f: "find_match id (Matches s) = Some i"
      and p: "Played (Matches s ! i)"
      and s': "s' = updateLeagueTable
                   (s\<lparr>Heap := apply_statistics ((Matches s ! i)\<lparr>HomeTeamScore := h, AwayTeamScore := a\<rparr>)
                                 (revert_statistics (Matches s ! i) (Heap s)),
                      Matches := (Matches s)[i := (Matches s ! i)\<lparr>HomeTeamScore := h, AwayTeamScore := a\<rparr>]\<rparr>)"
      by blast
    define m' where "m' = (Matches s ! i)\<lparr>HomeTeamScore := h, AwayTeamScore := a\<rparr>"
    have i: "i < length (Matches s)" by (rule find_match_bound [OF f])
    have "ledger_of (Heap s0 q) ((Matches s)[i := m']) q =
          apply_statistics m' (revert_statistics (Matches s ! i) (Heap s)) q" for q
      by (rule ledger_of_edit [symmetric])
         (use reach_edit.IH i p in \<open>simp_all add: m'_def ledger_inv_def\<close>)
    moreover have "sides ((Matches s)[i := m']) = sides (Matches s)"
      by (rule sides_update) (use i in \<open>simp_all add: m'_def\<close>)
    ultimately show ?thesis
      using reach_edit.IH by (simp add: s' ledger_inv_def m'_def)
  qed
qed

lemma reachable_heap_replay:
  assumes "unplayed_fixtures s0" and "gd_consistent (Heap s0)" and "reachable s0 s"
  shows "Heap s = replay_results (Matches s) (Heap s0)"
proof
  fix q
  from reachable_ledger [OF assms] have "Heap s q = ledger_of (Heap s0 q) (Matches s) q"
    by (simp add: ledger_inv_def)
  then show "Heap s q = replay_results (Matches s) (Heap s0) q"
    by (simp add: replay_results_at [OF assms(2)])
qed

lemma reachable_gd_consistent:
  assumes "unplayed_fixtures s0" and "gd_consistent (Heap s0)" and "reachable s0 s"
  shows "gd_consistent (Heap s)"
  using reachable_ledger [OF assms]
  by (simp add: gd_consistent_def ledger_inv_def ledger_of_def)

section \<open>The example leagues\<close>

lemma create_matches_explicit:
  "createPremierLeagueMatches [t0, t1, t2, t3] = Inr
     [new_match 1 1 t0 t1, new_match 2 1 t2 t3,
      new_match 3 2 t0 t2, new_match 4 2 t1 t3,
      new_match 5 3 t0 t3, new_match 6 3 t1 t2,
      new_match 7 4 t1 t0, new_match 8 4 t3 t2,
      new_match 9 5 t2 t0, new_match 10 5 t3 t1,
      new_match 11 6 t3 t0, new_match 12 6 t2 t1]"
  by (simp add: createPremierLeagueMatches_def weekFixtures_def index_def)

lemma main_league_matches:
  "Matches main_league =
     [new_match 1 1 0 1, new_match 2 1 2 3,
      new_match 3 2 0 2, new_match 4 2 1 3,
      new_match 5 3 0 3, new_match 6 3 1 2,
      new_match 7 4 1 0, new_match 8 4 3 2,
      new_match 9 5 2 0, new_match 10 5 3 1,
      new_match 11 6 3 0, new_match 12 6 2 1]"
  by (simp add: main_league_def create_matches_explicit)

lemma main_league_fields:
  "Heap main_league = main_heap" "Teams main_league = [0, 1, 2, 3]" "CurrentWeek main_league = 0"
  by (simp_all add: main_league_def)

lemma main_heap_at:
  "main_heap 0 = new_team ''Manchester United'' 1 80"
  "main_heap (Suc 0) = new_team ''Liverpool'' 2 85"
  "main_heap 2 = new_team ''Manchester City'' 3 90"
  "main_heap 3 = new_team ''Chelsea'' 4 88"
  by (simp_all add: main_heap_def createPremierLeagueTeams_def)

lemma main_heap_zero: "zero_ledgers main_heap"
proof -
  have "\<forall>t \<in> set createPremierLeagueTeams.
          GoalsFor t = 0 \<and> GoalsAgainst t = 0 \<and> Wins t = 0 \<and> Draws t = 0 \<and> Losses t = 0 \<and>
          Points t = 0 \<and> GoalsDifference t = 0"
    by (simp add: createPremierLeagueTeams_def new_team_def)
  moreover have "length createPremierLeagueTeams = 4"
    by (simp add: createPremierLeagueTeams_def)
  ultimately show ?thesis
    by (simp add: zero_ledgers_def main_heap_def new_team_def)
qed

lemma main_heap_gd: "gd_consistent main_heap"
  using main_heap_zero by (simp add: zero_ledgers_def gd_consistent_def)

lemma main_league_unplayed: "unplayed_fixtures main_league"
  by (simp add: unplayed_fixtures_def main_league_matches new_match_def)

lemma main_league_two_sided: "two_sided main_league"
  by (simp add: two_sided_def main_league_matches new_match_def)


lemma week1_matches:
  "Matches week1_league =
     [(new_match 1 1 0 1)\<lparr>HomeTeamScore := 4, AwayTeamScore := 3, Played := True\<rparr>,
      (new_match 2 1 2 3)\<lparr>HomeTeamScore := 4, AwayTeamScore := 3, Played := True\<rparr>,
      new_match 3 2 0 2, new_match 4 2 1 3,
      new_match 5 3 0 3, new_match 6 3 1 2,
      new_match 7 4 1 0, new_match 8 4 3 2,
      new_match 9 5 2 0, new_match 10 5 3 1,
      new_match 11 6 3 0, new_match 12 6 2 1]"
  by (simp add: week1_league_def weeklySimulator_matches fst_simulate_due_Cons
      main_league_matches main_league_fields example_scores_def new_match_def del: simulate_due.simps(2))

lemma week1_heap:
  "Heap week1_league =
     apply_statistics ((new_match 2 1 2 3)\<lparr>HomeTeamScore := 4, AwayTeamScore := 3\<rparr>)
       (apply_statistics ((new_match 1 1 0 1)\<lparr>HomeTeamScore := 4, AwayTeamScore := 3\<rparr>) main_heap)"
  by (simp add: week1_league_def weeklySimulator_def main_league_matches main_league_fields
      simulateMatch_unplayed example_scores_def new_match_def)

lemma week1_teams: "Teams week1_league = [0, 1, 2, 3]"
  by (simp add: week1_league_def weeklySimulator_frame main_league_fields)

lemma week1_reachable: "reachable main_league week1_league"
  unfolding week1_league_def by (rule reach_week [OF reach_init])

lemma corrected_week1_reachable: "reachable main_league corrected_week1"
  unfolding corrected_week1_def by (rule reach_edit [OF week1_reachable prod.collapse [symmetric]])

lemma week1_find: "find_match 1 (Matches week1_league) = Some 0"
  by (simp add: week1_matches new_match_def)

lemma week1_played: "Played (Matches week1_league ! 0)"
  by (simp add: week1_matches new_match_def)

lemma season_over_matches:
  "Matches season_over_league =
     map (\<lambda>m. m\<lparr>HomeTeamScore := 4, AwayTeamScore := 3, Played := True\<rparr>) (Matches main_league)"
  unfolding season_over_league_def
  by (simp add: eval_nat_numeral weeklySimulator_matches fst_simulate_due_Cons
      main_league_matches main_league_fields example_scores_def new_match_def del: simulate_due.simps(2))

lemma season_over_week: "CurrentWeek season_over_league = 6"
  by (simp add: season_over_league_def eval_nat_numeral main_league_fields)

lemma season_over_no_matches: "\<not> hasMatches (CurrentWeek season_over_league + 1) (Matches season_over_league)"
  by (simp add: hasMatches_def season_over_matches season_over_week main_league_matches new_match_def)

text \<open>The table after the first week: the two winners are level on points and goal
  difference and stay in the order of \<open>league.Teams\<close>, and so do the two losers.\<close>

lemma week1_standings:
  "map (\<lambda>e. (TeamName_e e, Points_e e, GoalsDifference_e e, Position_e e))
     (LeagueTable (updateLeagueTable week1_league)) =
     [(''Manchester United'', 3, 1, 1), (''Manchester City'', 3, 1, 2),
      (''Liverpool'', 0, - 1, 3), (''Chelsea'', 0, - 1, 4)]"
proof -
  have e: "map (\<lambda>p. table_entry (Heap week1_league p)) (Teams week1_league) =
      [\<lparr>TeamName_e = ''Manchester United'', Played_e = 1, Wins_e = 1, Draws_e = 0, Losses_e = 0,
        GoalsFor_e = 4, GoalsAgainst_e = 3, GoalsDifference_e = 1, Points_e = 3, Position_e = 0\<rparr>,
       \<lparr>TeamName_e = ''Liverpool'', Played_e = 1, Wins_e = 0, Draws_e = 0, Losses_e = 1,
        GoalsFor_e = 3, GoalsAgainst_e = 4, GoalsDifference_e = - 1, Points_e = 0, Position_e = 0\<rparr>,
       \<lparr>TeamName_e = ''Manchester City'', Played_e = 1, Wins_e = 1, Draws_e = 0, Losses_e = 0,
        GoalsFor_e = 4, GoalsAgainst_e = 3, GoalsDifference_e = 1, Points_e = 3, Position_e = 0\<rparr>,
       \<lparr>TeamName_e = ''Chelsea'', Played_e = 1, Wins_e = 0, Draws_e = 0, Losses_e = 1,
        GoalsFor_e = 3, GoalsAgainst_e = 4, GoalsDifference_e = - 1, Points_e = 0, Position_e = 0\<rparr>]"
    by (simp add: week1_teams week1_heap apply_statistics_at
      goals_for_of_def goals_against_of_def wins_of_def draws_of_def losses_of_def points_of_def
      home_win_def away_win_def drawn_def
      new_match_def main_heap_at new_team_def table_entry_def word_sless_alt)
  show ?thesis
    unfolding updateLeagueTable_def
    by (simp add: e insertionSort_func_def table_less_def word_sless_alt)
qed

section \<open>Fixture generator\<close>

lemma four_teams:
  assumes "length teams = 4"
  obtains t0 t1 t2 t3 where "teams = [t0, t1, t2, t3]"
  using assms by (auto simp add: eval_nat_numeral length_Suc_conv)

text \<open>
  C4. For four distinct competitors the fixture generator returns 12 matches whose weeks are
  exactly 1 to 6. Every competitor is home in 3 of them, away in 3 and plays in 6, and
  occurs exactly once among the competitors of each week; no competitor occurs twice among
  the competitors of any week, so no two matches of a week share a competitor.
\<close>

theorem fixture_schedule:
  assumes "length teams = 4" and "distinct teams"
  shows "\<exists>ms. createPremierLeagueMatches teams = Inr ms \<and>
           length ms = 12 \<and>
           set (map Week ms) = {1, 2, 3, 4, 5, 6} \<and>
           (\<forall>t \<in> set teams.
              home_games t ms = 3 \<and> away_games t ms = 3 \<and> games t ms = 6 \<and>
              (\<forall>w \<in> {1, 2, 3, 4, 5, 6}. count_list (participants w ms) t = 1)) \<and>
           (\<forall>w. distinct (participants w ms))"
proof -
  from assms(1) obtain t0 t1 t2 t3 where teams: "teams = [t0, t1, t2, t3]"
    by (rule four_teams)
  from assms(2) have d: "t0 \<noteq> t1" "t0 \<noteq> t2" "t0 \<noteq> t3" "t1 \<noteq> t2" "t1 \<noteq> t3" "t2 \<noteq> t3"
    "t1 \<noteq> t0" "t2 \<noteq> t0" "t3 \<noteq> t0" "t2 \<noteq> t1" "t3 \<noteq> t1" "t3 \<noteq> t2"
    by (auto simp add: teams)
  let ?ms = "[new_match 1 1 t0 t1, new_match 2 1 t2 t3,
      new_match 3 2 t0 t2, new_match 4 2 t1 t3,
      new_match 5 3 t0 t3, new_match 6 3 t1 t2,
      new_match 7 4 t1 t0, new_match 8 4 t3 t2,
      new_match 9 5 t2 t0, new_match 10 5 t3 t1,
      new_match 11 6 t3 t0, new_match 12 6 t2 t1]"
  have c: "createPremierLeagueMatches teams = Inr ?ms"
    by (simp add: teams create_matches_explicit)
  have l: "length ?ms = 12" by simp
  have w: "set (map Week ?ms) = {1, 2, 3, 4, 5, 6}"
    by (simp add: new_match_def)
  have h: "\<forall>t \<in> set teams. home_games t ?ms = 3 \<and> away_games t ?ms = 3 \<and> games t ?ms = 6"
    using d by (simp add: teams home_games_def away_games_def games_def new_match_def)
  have p: "\<forall>t \<in> set teams. \<forall>w \<in> {1, 2, 3, 4, 5, 6}. count_list (participants w ?ms) t = 1"
    using d by (simp add: teams participants_def new_match_def)
  have q: "\<forall>w. distinct (participants w ?ms)"
    using d by (simp add: participants_def new_match_def)
  show ?thesis
    unfolding c by (intro exI [of _ ?ms] conjI refl l w q) (use h p in blast)
qed

theorem fixture_schedule_witness:
  "length [0, 1, 2, 3 :: team_ptr] = 4 \<and> distinct [0, 1, 2, 3 :: team_ptr] \<and>
   (\<exists>ms. createPremierLeagueMatches [0, 1, 2, 3] = Inr ms \<and>
      length ms = 12 \<and>
      set (map Week ms) = {1, 2, 3, 4, 5, 6} \<and>
      (\<forall>t \<in> set [0, 1, 2, 3].
         home_games t ms = 3 \<and> away_games t ms = 3 \<and> games t ms = 6 \<and>
         (\<forall>w \<in> {1, 2, 3, 4, 5, 6}. count_list (participants w ms) t = 1)) \<and>
      (\<forall>w. distinct (participants w ms)))"
proof -
  have l: "length [0, 1, 2, 3 :: team_ptr] = 4" by simp
  have d: "distinct [0, 1, 2, 3 :: team_ptr]" by simp
  from fixture_schedule [OF l d] l d show ?thesis by blast
qed

section \<open>Standings builder\<close>

lemma sint_eq_iff: "sint (x :: goint) = sint y \<longleftrightarrow> x = y"
  by (auto intro: signed_word_eqI)

lemma mset_bubble: "mset (bubble lt x rp) = add_mset x (mset rp)"
  by (induction rp) auto

lemma set_bubble: "set (bubble lt x rp) = insert x (set rp)"
  by (induction rp) auto

lemma filter_bubble_neg: "\<not> P x \<Longrightarrow> filter P (bubble lt x rp) = filter P rp"
  by (induction rp) auto

lemma filter_bubble_pos:
  "P x \<Longrightarrow> \<forall>y. lt x y \<longrightarrow> \<not> P y \<Longrightarrow> filter P (bubble lt x rp) = x # filter P rp"
  by (induction rp) auto

lemma mset_fold_bubble: "mset (fold (bubble lt) xs acc) = mset xs + mset acc"
  by (induction xs arbitrary: acc) (auto simp add: mset_bubble)

lemma mset_insertionSort: "mset (insertionSort_func lt xs) = mset xs"
  by (simp add: insertionSort_func_def mset_fold_bubble)

lemma length_assign_positions [simp]: "length (assign_positions i es) = length es"
  by (induction es arbitrary: i) auto

lemma nth_assign_positions:
  "k < length es \<Longrightarrow> assign_positions i es ! k = (es ! k)\<lparr>Position_e := of_nat (i + k) + 1\<rparr>"
proof (induction es arbitrary: i k)
  case Nil
  then show ?case by simp
next
  case (Cons e es)
  then show ?case by (cases k) auto
qed

lemma ptr_less_key: "ptr_less H p q \<longleftrightarrow> team_key (H q) < team_key (H p)"
  by (auto simp add: ptr_less_def table_less_def table_entry_def team_key_def word_sless_alt
      less_prod_def sint_eq_iff [symmetric])

lemma team_ranks_above_key: "team_ranks_above a b \<longleftrightarrow> team_key b \<le> team_key a"
  by (auto simp add: team_ranks_above_def team_key_def less_eq_prod_def sint_eq_iff)

lemma team_tied_at_key: "team_tied_at pts gd t \<longleftrightarrow> team_key t = (sint pts, sint gd)"
  by (auto simp add: team_tied_at_def team_key_def sint_eq_iff)

lemma sorted_bubble_key:
  fixes key :: "'a \<Rightarrow> 'k::linorder"
  assumes "\<And>a b. lt a b \<longleftrightarrow> key b < key a"
  shows "sorted (map key rp) \<Longrightarrow> sorted (map key (bubble lt x rp))"
  by (induction rp) (auto simp add: assms set_bubble)

lemma filter_bubble_key:
  fixes key :: "'a \<Rightarrow> 'k::linorder"
  assumes "\<And>a b. lt a b \<longleftrightarrow> key b < key a"
  shows "filter (\<lambda>y. key y = c) (bubble lt x rp) =
           (if key x = c then x # filter (\<lambda>y. key y = c) rp else filter (\<lambda>y. key y = c) rp)"
proof (cases "key x = c")
  case True
  then have "\<forall>y. lt x y \<longrightarrow> \<not> key y = c"
    by (auto simp add: assms)
  with True show ?thesis by (simp add: filter_bubble_pos)
next
  case False
  then show ?thesis by (simp add: filter_bubble_neg)
qed

lemma sorted_fold_bubble_key:
  fixes key :: "'a \<Rightarrow> 'k::linorder"
  assumes "\<And>a b. lt a b \<longleftrightarrow> key b < key a"
  shows "sorted (map key acc) \<Longrightarrow> sorted (map key (fold (bubble lt) xs acc))"
  by (induction xs arbitrary: acc) (auto simp add: sorted_bubble_key [OF assms])

lemma filter_fold_bubble_key:
  fixes key :: "'a \<Rightarrow> 'k::linorder"
  assumes "\<And>a b. lt a b \<longleftrightarrow> key b < key a"
  shows "filter (\<lambda>y. key y = c) (fold (bubble lt) xs acc) =
           rev (filter (\<lambda>y. key y = c) xs) @ filter (\<lambda>y. key y = c) acc"
  by (induction xs arbitrary: acc) (auto simp add: filter_bubble_key [OF assms])

lemma sorted_insertionSort_key:
  fixes key :: "'a \<Rightarrow> 'k::linorder"
  assumes "\<And>a b. lt a b \<longleftrightarrow> key b < key a"
  shows "sorted_wrt (\<lambda>a b. key b \<le> key a) (insertionSort_func lt xs)"
proof -
  have "sorted (map key (fold (bubble lt) xs []))"
    by (rule sorted_fold_bubble_key [OF assms]) simp
  then have "sorted_wrt (\<lambda>a b. key a \<le> key b) (fold (bubble lt) xs [])"
    by (simp add: sorted_map)
  then show ?thesis
    by (simp add: insertionSort_func_def sorted_wrt_rev)
qed

lemma stable_insertionSort_key:
  fixes key :: "'a \<Rightarrow> 'k::linorder"
  assumes "\<And>a b. lt a b \<longleftrightarrow> key b < key a"
  shows "filter (\<lambda>y. key y = c) (insertionSort_func lt xs) = filter (\<lambda>y. key y = c) xs"
  by (simp add: insertionSort_func_def rev_filter [symmetric] filter_fold_bubble_key [OF assms])

text \<open>Sorting the entries is sorting the teams they were made from.\<close>

lemma map_bubble:
  "map f (bubble (\<lambda>a b. lt (f a) (f b)) x rp) = bubble lt (f x) (map f rp)"
  by (induction rp) auto

lemma map_fold_bubble:
  "map f (fold (bubble (\<lambda>a b. lt (f a) (f b))) xs acc) = fold (bubble lt) (map f xs) (map f acc)"
  by (induction xs arbitrary: acc) (auto simp add: map_bubble)

lemma map_insertionSort:
  "map f (insertionSort_func (\<lambda>a b. lt (f a) (f b)) xs) = insertionSort_func lt (map f xs)"
  using map_fold_bubble [of f lt xs "[]"]
  by (simp add: insertionSort_func_def rev_map [symmetric])

text \<open>
  C5. For a league of at most 12 teams (the slices that \<open>sort.Slice\<close> sorts by insertion),
  the table \<open>T\<close> that \<open>updateLeagueTable\<close> builds lists the teams of \<open>league.Teams\<close> in
  an order \<open>ps\<close> that is a permutation of \<open>league.Teams\<close>: one entry per competitor.
  The entry at index \<open>i\<close> carries the name, the wins, draws and losses and their sum, the
  goals, the goals scored minus the goals conceded and the points of the team \<open>ps ! i\<close>,
  and the position \<open>i + 1\<close>. Of two teams of \<open>ps\<close> the earlier one has more points (as
  signed integers), or the same points and at least the goal difference. The teams level
  on both points and goal difference are in the order of \<open>league.Teams\<close>.
\<close>

theorem standings_order:
  assumes "length (Teams league) \<le> 12"
    and "T = LeagueTable (updateLeagueTable league)"
    and "H = Heap league"
  shows "\<exists>ps. mset ps = mset (Teams league) \<and>
           length T = length ps \<and>
           (\<forall>i. i < length ps \<longrightarrow>
              T ! i =
                \<lparr>TeamName_e = TeamName (H (ps ! i)),
                 Played_e = Wins (H (ps ! i)) + Draws (H (ps ! i)) + Losses (H (ps ! i)),
                 Wins_e = Wins (H (ps ! i)),
                 Draws_e = Draws (H (ps ! i)),
                 Losses_e = Losses (H (ps ! i)),
                 GoalsFor_e = GoalsFor (H (ps ! i)),
                 GoalsAgainst_e = GoalsAgainst (H (ps ! i)),
                 GoalsDifference_e = GoalsFor (H (ps ! i)) - GoalsAgainst (H (ps ! i)),
                 Points_e = Points (H (ps ! i)),
                 Position_e = of_nat i + 1\<rparr>) \<and>
           sorted_wrt (\<lambda>p q. team_ranks_above (H p) (H q)) ps \<and>
           (\<forall>pts gd. filter (\<lambda>p. team_tied_at pts gd (H p)) ps =
                      filter (\<lambda>p. team_tied_at pts gd (H p)) (Teams league))"
proof -
  define ps where "ps = insertionSort_func (ptr_less H) (Teams league)"
  have key: "\<And>p q. ptr_less H p q \<longleftrightarrow> team_key (H q) < team_key (H p)"
    by (rule ptr_less_key)
  have S: "insertionSort_func table_less (map (\<lambda>p. table_entry (H p)) (Teams league)) =
           map (\<lambda>p. table_entry (H p)) ps"
    unfolding ps_def ptr_less_def [abs_def]
    by (rule map_insertionSort [symmetric])
  have T: "T = assign_positions 0 (map (\<lambda>p. table_entry (H p)) ps)"
    by (simp add: assms(2,3) updateLeagueTable_def S [unfolded assms(3)])
  have "mset ps = mset (Teams league)"
    by (simp add: ps_def mset_insertionSort)
  moreover have "length T = length ps"
    by (simp add: T)
  moreover have "\<forall>i. i < length ps \<longrightarrow>
              T ! i =
                \<lparr>TeamName_e = TeamName (H (ps ! i)),
                 Played_e = Wins (H (ps ! i)) + Draws (H (ps ! i)) + Losses (H (ps ! i)),
                 Wins_e = Wins (H (ps ! i)),
                 Draws_e = Draws (H (ps ! i)),
                 Losses_e = Losses (H (ps ! i)),
                 GoalsFor_e = GoalsFor (H (ps ! i)),
                 GoalsAgainst_e = GoalsAgainst (H (ps ! i)),
                 GoalsDifference_e = GoalsFor (H (ps ! i)) - GoalsAgainst (H (ps ! i)),
                 Points_e = Points (H (ps ! i)),
                 Position_e = of_nat i + 1\<rparr>"
    by (simp add: T nth_assign_positions table_entry_def)
  moreover have "sorted_wrt (\<lambda>p q. team_ranks_above (H p) (H q)) ps"
    using sorted_insertionSort_key [of "ptr_less H" "\<lambda>p. team_key (H p)", OF key, of "Teams league"]
    by (simp add: ps_def team_ranks_above_key)
  moreover have "\<forall>pts gd. filter (\<lambda>p. team_tied_at pts gd (H p)) ps =
                      filter (\<lambda>p. team_tied_at pts gd (H p)) (Teams league)"
    using stable_insertionSort_key [of "ptr_less H" "\<lambda>p. team_key (H p)", OF key]
    by (simp add: ps_def team_tied_at_key)
  ultimately show ?thesis by blast
qed

theorem standings_order_witness:
  "length (Teams week1_league) \<le> 12 \<and>
   (\<exists>ps. mset ps = mset (Teams week1_league) \<and>
           length (LeagueTable (updateLeagueTable week1_league)) = length ps \<and>
           (\<forall>i. i < length ps \<longrightarrow>
              LeagueTable (updateLeagueTable week1_league) ! i =
                \<lparr>TeamName_e = TeamName (Heap week1_league (ps ! i)),
                 Played_e = Wins (Heap week1_league (ps ! i)) + Draws (Heap week1_league (ps ! i)) +
                   Losses (Heap week1_league (ps ! i)),
                 Wins_e = Wins (Heap week1_league (ps ! i)),
                 Draws_e = Draws (Heap week1_league (ps ! i)),
                 Losses_e = Losses (Heap week1_league (ps ! i)),
                 GoalsFor_e = GoalsFor (Heap week1_league (ps ! i)),
                 GoalsAgainst_e = GoalsAgainst (Heap week1_league (ps ! i)),
                 GoalsDifference_e =
                   GoalsFor (Heap week1_league (ps ! i)) - GoalsAgainst (Heap week1_league (ps ! i)),
                 Points_e = Points (Heap week1_league (ps ! i)),
                 Position_e = of_nat i + 1\<rparr>) \<and>
           sorted_wrt (\<lambda>p q. team_ranks_above (Heap week1_league p) (Heap week1_league q)) ps \<and>
           (\<forall>pts gd. filter (\<lambda>p. team_tied_at pts gd (Heap week1_league p)) ps =
                      filter (\<lambda>p. team_tied_at pts gd (Heap week1_league p)) (Teams week1_league)))"
proof -
  have l: "length (Teams week1_league) \<le> 12" by (simp add: week1_teams)
  from standings_order [OF l refl refl] l show ?thesis by blast
qed

section \<open>Weekly scheduler\<close>

text \<open>
  C6, as the claim states it, fails on the league at the end of the season: no match of
  week 7 is unplayed, the advance fails with "no more matches to simulate", and the week
  counter is not 7 afterwards.
\<close>

theorem failed_advance_counterexample:
  "\<not> hasMatches (CurrentWeek season_over_league + 1) (Matches season_over_league) \<and>
   fst (SimulateNextWeek None example_scores season_over_league) = Some ''no more matches to simulate'' \<and>
   CurrentWeek (snd (SimulateNextWeek None example_scores season_over_league)) \<noteq>
     CurrentWeek season_over_league + 1"
  using season_over_no_matches
  by (simp add: SimulateNextWeek_def)

text \<open>
  C6, amended. When no unplayed match exists at week \<open>CurrentWeek + 1\<close>,
  \<open>SimulateNextWeek\<close> fails with "no more matches to simulate" and leaves the league as it
  was: the check comes before \<open>weeklySimulator\<close>, so the week counter is not incremented.
\<close>

theorem failed_advance_keeps_week:
  assumes "\<not> hasMatches (CurrentWeek league + 1) (Matches league)"
  shows "SimulateNextWeek st rnd league = (Some ''no more matches to simulate'', league)"
  using assms by (simp add: SimulateNextWeek_def)

theorem failed_advance_keeps_week_witness:
  "\<not> hasMatches (CurrentWeek season_over_league + 1) (Matches season_over_league) \<and>
   SimulateNextWeek None example_scores season_over_league =
     (Some ''no more matches to simulate'', season_over_league)"
  using season_over_no_matches failed_advance_keeps_week [OF season_over_no_matches] by simp

section \<open>Refused corrections\<close>

text \<open>
  C7. When the match that the id finds is not marked played, the correction answers
  "Cannot edit unplayed match" with status 400 and leaves the whole league as it was: the
  heap of team statistics, every match with its scoreline and played flag, the week and the
  table.
\<close>

theorem edit_unplayed_rejected:
  assumes "find_match mid (Matches league) = Some i"
    and "\<not> Played (Matches league ! i)"
  shows "editMatchResultHandler st (Some mid) (Some (h, a)) league =
           (Inl (HttpError ''Cannot edit unplayed match'' 400), league)"
  using assms by (simp add: editMatchResultHandler_def)

theorem edit_unplayed_rejected_witness:
  "find_match 1 (Matches main_league) = Some 0 \<and> \<not> Played (Matches main_league ! 0) \<and>
   editMatchResultHandler None (Some 1) (Some (2, 1)) main_league =
     (Inl (HttpError ''Cannot edit unplayed match'' 400), main_league)"
proof -
  have f: "find_match 1 (Matches main_league) = Some 0"
    by (simp add: main_league_matches new_match_def)
  have p: "\<not> Played (Matches main_league ! 0)"
    by (simp add: main_league_matches new_match_def)
  show ?thesis using f p edit_unplayed_rejected [OF f p] by simp
qed

text \<open>
  C8, as the claim states it, fails on a negative goal count: after the first week the
  request with home score -1 for match 1 is answered with the table, not with an error, the
  match records -1 home goals and the home team's goals scored go from 4 to -1.
\<close>

theorem negative_score_counterexample:
  "fst negative_correction = Inr (LeagueTable (snd negative_correction)) \<and>
   GoalsFor (Heap week1_league 0) = 4 \<and>
   GoalsFor (Heap (snd negative_correction) 0) = - 1 \<and>
   HomeTeamScore (Matches (snd negative_correction) ! 0) = - 1"
proof -
  have s: "snd negative_correction =
         updateLeagueTable
           (week1_league\<lparr>Heap := apply_statistics ((Matches week1_league ! 0)\<lparr>HomeTeamScore := - 1, AwayTeamScore := 0\<rparr>)
                         (revert_statistics (Matches week1_league ! 0) (Heap week1_league)),
              Matches := (Matches week1_league)[0 := (Matches week1_league ! 0)\<lparr>HomeTeamScore := - 1, AwayTeamScore := 0\<rparr>]\<rparr>)"
    unfolding negative_correction_def by (rule editMatchResultHandler_played [OF week1_find week1_played])
  have "fst negative_correction = Inr (LeagueTable (snd negative_correction))"
    using week1_find week1_played
    by (simp add: negative_correction_def editMatchResultHandler_def Let_def)
  moreover have "GoalsFor (Heap week1_league 0) = 4"
    by (simp add: week1_heap apply_statistics_at goals_for_of_def new_match_def main_heap_at new_team_def)
  moreover have "GoalsFor (Heap (snd negative_correction) 0) = - 1"
    by (simp add: s week1_matches week1_heap apply_statistics_at revert_statistics_at goals_for_of_def
        new_match_def main_heap_at new_team_def)
  moreover have "HomeTeamScore (Matches (snd negative_correction) ! 0) = - 1"
    by (simp add: s week1_matches)
  ultimately show ?thesis by simp
qed

text \<open>
  C8, amended. A correction request whose body the JSON decoder rejects is answered with
  status 400 and leaves the whole league as it was: no competitor statistic, no match
  scoreline and no standings entry changes. The message is "Invalid match ID" when the id
  of the path is not a number, since the id is parsed first, and "Invalid request body"
  otherwise.
\<close>

theorem undecodable_request_rejected:
  "editMatchResultHandler st mid None league =
     (Inl (HttpError (case mid of None \<Rightarrow> ''Invalid match ID'' | Some i \<Rightarrow> ''Invalid request body'') 400),
      league)"
  by (simp add: editMatchResultHandler_def split: option.splits)

theorem undecodable_request_rejected_witness:
  "editMatchResultHandler None (Some 1) None week1_league =
     (Inl (HttpError ''Invalid request body'' 400), week1_league)"
  using undecodable_request_rejected [of None "Some 1" week1_league] by simp

section \<open>Correction as if the replacement had been the result\<close>

text \<open>
  C1. Let the league \<open>s\<close> be reached from a league \<open>s0\<close> whose fixtures were all unplayed
  (and whose ledgers had consistent goal differences), and let the correction replace the
  scoreline of a played match by \<open>(h, a)\<close>, whatever the storage service answers. Then the
  fixture list afterwards is the old one with that scoreline replaced, and every team's
  ledger is exactly the ledger that the outcome engine produces from the ledgers of \<open>s0\<close>
  when it is run on the played fixtures with the scorelines recorded afterwards: the
  replacement, not the original, for the corrected match.
\<close>

theorem correction_as_if_recorded:
  assumes "unplayed_fixtures s0" and "gd_consistent (Heap s0)" and "reachable s0 s"
    and "find_match mid (Matches s) = Some i" and "Played (Matches s ! i)"
    and "s' = snd (editMatchResultHandler st (Some mid) (Some (h, a)) s)"
  shows "Matches s' = (Matches s)[i := (Matches s ! i)\<lparr>HomeTeamScore := h, AwayTeamScore := a\<rparr>] \<and>
         Heap s' = replay_results (Matches s') (Heap s0)"
proof
  show "Matches s' = (Matches s)[i := (Matches s ! i)\<lparr>HomeTeamScore := h, AwayTeamScore := a\<rparr>]"
    by (simp add: assms(6) editMatchResultHandler_played [OF assms(4,5)])
  have "reachable s0 s'"
    unfolding assms(6) by (rule reach_edit [OF assms(3) prod.collapse [symmetric]])
  then show "Heap s' = replay_results (Matches s') (Heap s0)"
    by (rule reachable_heap_replay [OF assms(1,2)])
qed

theorem correction_as_if_recorded_witness:
  "unplayed_fixtures main_league \<and> gd_consistent (Heap main_league) \<and>
   reachable main_league week1_league \<and>
   find_match 1 (Matches week1_league) = Some 0 \<and> Played (Matches week1_league ! 0) \<and>
   Matches corrected_week1 =
     (Matches week1_league)[0 := (Matches week1_league ! 0)\<lparr>HomeTeamScore := 2, AwayTeamScore := 2\<rparr>] \<and>
   Heap corrected_week1 = replay_results (Matches corrected_week1) (Heap main_league)"
proof -
  have g: "gd_consistent (Heap main_league)"
    by (simp add: main_league_fields main_heap_gd)
  from correction_as_if_recorded [OF main_league_unplayed g week1_reachable week1_find week1_played
      corrected_week1_def]
  show ?thesis
    using main_league_unplayed g week1_reachable week1_find week1_played by simp
qed

section \<open>Ledger invariants\<close>

lemma total_points: "total points_of ms q = 3 * total wins_of ms q + total draws_of ms q"
  by (induction ms) (simp_all add: points_of_def algebra_simps)

lemma outcome_of_match:
  "wins_of m q + draws_of m q + losses_of m q =
     (if q = HomeTeam m then 1 else 0) + (if q = AwayTeam m then 1 else 0)"
  by (simp add: delta_defs)

lemma total_results:
  "\<forall>m \<in> set ms. HomeTeam m \<noteq> AwayTeam m \<Longrightarrow>
   total wins_of ms q + total draws_of ms q + total losses_of ms q = of_nat (played_involving q ms)"
proof (induction ms)
  case Nil
  then show ?case by (simp add: played_involving_def)
next
  case (Cons m ms)
  then have IH: "total wins_of ms q + total draws_of ms q + total losses_of ms q =
                   of_nat (played_involving q ms)"
    and ne: "HomeTeam m \<noteq> AwayTeam m"
    by simp_all
  show ?case
  proof (cases "Played m")
    case True
    have "total wins_of (m # ms) q + total draws_of (m # ms) q + total losses_of (m # ms) q =
            (wins_of m q + draws_of m q + losses_of m q) +
            (total wins_of ms q + total draws_of ms q + total losses_of ms q)"
      using True by simp
    also have "\<dots> = (if q = HomeTeam m \<or> q = AwayTeam m then 1 else 0) + of_nat (played_involving q ms)"
      using ne by (auto simp add: outcome_of_match IH)
    also have "\<dots> = of_nat (played_involving q (m # ms))"
      using True by (auto simp add: played_involving_def)
    finally show ?thesis .
  next
    case False
    then show ?thesis using IH by (simp add: played_involving_def)
  qed
qed

lemma played_involving_le: "played_involving q ms \<le> length ms"
  by (simp add: played_involving_def)

lemma sint_of_nat_goint: "n < 2 ^ 63 \<Longrightarrow> sint (of_nat n :: goint) = int n"
proof -
  assume "n < 2 ^ 63"
  then have "int n < 2 ^ 63" by (metis of_nat_less_iff of_nat_numeral of_nat_power)
  moreover have "- (2 ^ 63) \<le> int n" by simp
  ultimately have "signed_take_bit 63 (int n) = int n"
    by (simp add: signed_take_bit_int_eq_self_iff)
  then show ?thesis by (simp add: signed_of_nat)
qed


lemma two_sided_sides:
  "(\<forall>m \<in> set ms. HomeTeam m \<noteq> AwayTeam m) \<longleftrightarrow> (\<forall>x \<in> set (sides ms). fst x \<noteq> snd x)"
  by (simp add: sides_def)

text \<open>
  C2. Let \<open>s\<close> be reached from a league \<open>s0\<close> with all-zero ledgers, no fixture played,
  two different sides in every fixture and a fixture slice of a length that is a Go
  \<open>int\<close>. Then for the team at every address \<open>p\<close>: \<open>Points == 3*Wins + Draws\<close> and
  \<open>GoalsDifference == GoalsFor - GoalsAgainst\<close> in Go's arithmetic, and
  \<open>Wins + Draws + Losses\<close> is, as a signed integer, the number of played matches with \<open>p\<close>
  as home or away team.
\<close>

theorem ledger_invariants:
  assumes "zero_ledgers (Heap s0)" and "unplayed_fixtures s0" and "two_sided s0"
    and "length (Matches s0) < 2 ^ 63" and "reachable s0 s"
  shows "Points (Heap s p) = 3 * Wins (Heap s p) + Draws (Heap s p) \<and>
         GoalsDifference (Heap s p) = GoalsFor (Heap s p) - GoalsAgainst (Heap s p) \<and>
         sint (Wins (Heap s p) + Draws (Heap s p) + Losses (Heap s p)) =
           int (played_involving p (Matches s))"
proof -
  have gd: "gd_consistent (Heap s0)"
    using assms(1) by (simp add: zero_ledgers_def gd_consistent_def)
  from reachable_ledger [OF assms(2) gd assms(5)]
  have L: "Heap s p = ledger_of (Heap s0 p) (Matches s) p"
    and S: "sides (Matches s) = sides (Matches s0)"
    by (simp_all add: ledger_inv_def)
  have z: "GoalsFor (Heap s0 p) = 0" "GoalsAgainst (Heap s0 p) = 0" "Wins (Heap s0 p) = 0"
    "Draws (Heap s0 p) = 0" "Losses (Heap s0 p) = 0" "Points (Heap s0 p) = 0"
    using assms(1) by (simp_all add: zero_ledgers_def)
  have two: "\<forall>m \<in> set (Matches s). HomeTeam m \<noteq> AwayTeam m"
    using assms(3) S by (simp add: two_sided_def two_sided_sides)
  have "length (Matches s) = length (Matches s0)"
    using S by (metis length_map sides_def)
  then have bound: "played_involving p (Matches s) < 2 ^ 63"
    using played_involving_le [of p "Matches s"] assms(4) by simp
  have "Points (Heap s p) = 3 * Wins (Heap s p) + Draws (Heap s p)"
    by (simp add: L ledger_of_def z total_points)
  moreover have "GoalsDifference (Heap s p) = GoalsFor (Heap s p) - GoalsAgainst (Heap s p)"
    by (simp add: L ledger_of_def)
  moreover have "Wins (Heap s p) + Draws (Heap s p) + Losses (Heap s p) =
                 of_nat (played_involving p (Matches s))"
    using total_results [OF two, of p] by (simp add: L ledger_of_def z)
  ultimately show ?thesis
    by (simp add: sint_of_nat_goint [OF bound])
qed

theorem ledger_invariants_witness:
  "zero_ledgers (Heap main_league) \<and> unplayed_fixtures main_league \<and> two_sided main_league \<and>
   length (Matches main_league) < 2 ^ 63 \<and> reachable main_league corrected_week1 \<and>
   Points (Heap corrected_week1 0) = 3 * Wins (Heap corrected_week1 0) + Draws (Heap corrected_week1 0) \<and>
   GoalsDifference (Heap corrected_week1 0) =
     GoalsFor (Heap corrected_week1 0) - GoalsAgainst (Heap corrected_week1 0) \<and>
   sint (Wins (Heap corrected_week1 0) + Draws (Heap corrected_week1 0) + Losses (Heap corrected_week1 0)) =
     int (played_involving 0 (Matches corrected_week1))"
proof -
  have z: "zero_ledgers (Heap main_league)"
    by (simp add: main_league_fields main_heap_zero)
  have l: "length (Matches main_league) < 2 ^ 63"
    by (simp add: main_league_matches)
  from ledger_invariants [OF z main_league_unplayed main_league_two_sided l corrected_week1_reachable, of 0]
  show ?thesis
    using z main_league_unplayed main_league_two_sided l corrected_week1_reachable by simp
qed

section \<open>Correction round trip\<close>

text \<open>
  C3. Let match \<open>m\<close> be played and let its two teams have the goal difference of their
  goals (which holds in every reachable league, see \<open>reachable_gd_consistent\<close>). Correcting
  \<open>m\<close> to any scoreline \<open>(h, a)\<close> and then back to the scoreline it had restores the
  ledger of every team and the whole fixture list, whatever the storage service answers to
  either request.
\<close>

theorem correction_round_trip:
  assumes "find_match mid (Matches s) = Some i" and "Played (Matches s ! i)"
    and "m = Matches s ! i"
    and "GoalsDifference (Heap s (HomeTeam m)) =
           GoalsFor (Heap s (HomeTeam m)) - GoalsAgainst (Heap s (HomeTeam m))"
    and "GoalsDifference (Heap s (AwayTeam m)) =
           GoalsFor (Heap s (AwayTeam m)) - GoalsAgainst (Heap s (AwayTeam m))"
    and "s1 = snd (editMatchResultHandler st1 (Some mid) (Some (h, a)) s)"
    and "s2 = snd (editMatchResultHandler st2 (Some mid) (Some (HomeTeamScore m, AwayTeamScore m)) s1)"
  shows "Heap s2 = Heap s \<and> Matches s2 = Matches s"
proof -
  define m1 where "m1 = m\<lparr>HomeTeamScore := h, AwayTeamScore := a\<rparr>"
  have i: "i < length (Matches s)" by (rule find_match_bound [OF assms(1)])
  have s1: "s1 = updateLeagueTable
                  (s\<lparr>Heap := apply_statistics m1 (revert_statistics m (Heap s)),
                     Matches := (Matches s)[i := m1]\<rparr>)"
    by (simp add: assms(6) editMatchResultHandler_played [OF assms(1,2)] m1_def assms(3))
  have f1: "find_match mid (Matches s1) = Some i"
    by (simp add: s1 find_match_update [OF assms(1)] m1_def assms(3))
  have n1: "Matches s1 ! i = m1" using i by (simp add: s1)
  then have p1: "Played (Matches s1 ! i)" using assms(2,3) by (simp add: m1_def)
  have restored: "m1\<lparr>HomeTeamScore := HomeTeamScore m, AwayTeamScore := AwayTeamScore m\<rparr> = m"
    by (simp add: m1_def)
  have s2: "s2 = updateLeagueTable
                  (s1\<lparr>Heap := apply_statistics m (revert_statistics m1 (Heap s1)),
                      Matches := (Matches s1)[i := m]\<rparr>)"
    by (simp add: assms(7) editMatchResultHandler_played [OF f1 p1] n1 restored)
  have "Matches s2 = Matches s"
    using i by (simp add: s2 s1 assms(3))
  moreover have "Heap s2 = Heap s"
  proof
    fix q
    show "Heap s2 q = Heap s q"
      using assms(4,5) delta_outside [of q m]
      by (simp add: s2 s1 apply_statistics_at revert_statistics_at m1_def)
  qed
  ultimately show ?thesis by simp
qed

theorem correction_round_trip_witness:
  "find_match 1 (Matches week1_league) = Some 0 \<and> Played (Matches week1_league ! 0) \<and>
   GoalsDifference (Heap week1_league (HomeTeam (Matches week1_league ! 0))) =
     GoalsFor (Heap week1_league (HomeTeam (Matches week1_league ! 0))) -
     GoalsAgainst (Heap week1_league (HomeTeam (Matches week1_league ! 0))) \<and>
   GoalsDifference (Heap week1_league (AwayTeam (Matches week1_league ! 0))) =
     GoalsFor (Heap week1_league (AwayTeam (Matches week1_league ! 0))) -
     GoalsAgainst (Heap week1_league (AwayTeam (Matches week1_league ! 0))) \<and>
   Heap (snd (editMatchResultHandler None (Some 1)
               (Some (HomeTeamScore (Matches week1_league ! 0), AwayTeamScore (Matches week1_league ! 0)))
               corrected_week1)) = Heap week1_league \<and>
   Matches (snd (editMatchResultHandler None (Some 1)
               (Some (HomeTeamScore (Matches week1_league ! 0), AwayTeamScore (Matches week1_league ! 0)))
               corrected_week1)) = Matches week1_league"
proof -
  have g: "gd_consistent (Heap main_league)"
    by (simp add: main_league_fields main_heap_gd)
  have c: "gd_consistent (Heap week1_league)"
    by (rule reachable_gd_consistent [OF main_league_unplayed g week1_reachable])
  have h: "GoalsDifference (Heap week1_league (HomeTeam (Matches week1_league ! 0))) =
     GoalsFor (Heap week1_league (HomeTeam (Matches week1_league ! 0))) -
     GoalsAgainst (Heap week1_league (HomeTeam (Matches week1_league ! 0)))"
    using c by (simp add: gd_consistent_def)
  have a: "GoalsDifference (Heap week1_league (AwayTeam (Matches week1_league ! 0))) =
     GoalsFor (Heap week1_league (AwayTeam (Matches week1_league ! 0))) -
     GoalsAgainst (Heap week1_league (AwayTeam (Matches week1_league ! 0)))"
    using c by (simp add: gd_consistent_def)
  from correction_round_trip [OF week1_find week1_played refl h a corrected_week1_def refl]
  show ?thesis
    using week1_find week1_played h a by simp
qed

section \<open>Conservation of goals and results\<close>












end
